theory Spec2Isabelle
  imports Complex_Main
begin

section \<open>Numbers\<close>

text \<open>
  The program reads its prices with \<^verbatim>\<open>df['Close'].values\<close>, a numpy array of float64,
  so every price, every pivot price and every quotient is a numpy float64. The model
  idealises a finite float64 as a real number (no rounding, no overflow, one zero) and
  keeps the three special values that numpy's division and \<^verbatim>\<open>np.std\<close> produce from finite
  operands: a division by zero does not raise, it yields an infinity or NaN (and prints a
  RuntimeWarning, which is not modelled). The inputs of the pipeline are finite.
\<close>

datatype float64 = Fin real | PInf | NInf | NaN

text \<open>\<^verbatim>\<open>a / b\<close> on two finite float64.\<close>

definition np_div :: "real \<Rightarrow> real \<Rightarrow> float64" where
  "np_div a b =
     (if b \<noteq> 0 then Fin (a / b)
      else if 0 < a then PInf
      else if a < 0 then NInf
      else NaN)"

text \<open>\<^verbatim>\<open>x > r\<close>, \<^verbatim>\<open>x <= r\<close> and \<^verbatim>\<open>x >= r\<close> for a float64 \<open>x\<close> and a finite \<open>r\<close>: every
  comparison with NaN is false.\<close>

fun f64_gt :: "float64 \<Rightarrow> real \<Rightarrow> bool" where
  "f64_gt (Fin x) r = (r < x)"
| "f64_gt PInf r = True"
| "f64_gt NInf r = False"
| "f64_gt NaN r = False"

fun f64_le :: "float64 \<Rightarrow> real \<Rightarrow> bool" where
  "f64_le (Fin x) r = (x \<le> r)"
| "f64_le PInf r = False"
| "f64_le NInf r = True"
| "f64_le NaN r = False"

fun f64_ge :: "float64 \<Rightarrow> real \<Rightarrow> bool" where
  "f64_ge (Fin x) r = (r \<le> x)"
| "f64_ge PInf r = True"
| "f64_ge NInf r = False"
| "f64_ge NaN r = False"

text \<open>\<^verbatim>\<open>x / d\<close> for a float64 \<open>x\<close> and a Python integer \<open>d\<close>; the program only divides by
  a \<open>d\<close> it has tested to be non-zero.\<close>

fun f64_div_int :: "float64 \<Rightarrow> int \<Rightarrow> float64" where
  "f64_div_int (Fin x) d = np_div x (real_of_int d)"
| "f64_div_int PInf d = (if 0 \<le> d then PInf else NInf)"
| "f64_div_int NInf d = (if 0 \<le> d then NInf else PInf)"
| "f64_div_int NaN d = NaN"

datatype error = IndexError

section \<open>Zigzag pivot detection\<close>

type_synonym pivot = "int \<times> real"

text \<open>The local variables of \<^verbatim>\<open>zigzag_detector\<close>; \<open>trend_up = None\<close> is Python's
  \<^verbatim>\<open>trend_up = None\<close>.\<close>

record zigzag_state =
  pivots :: "pivot list"
  last_price :: real
  trend_up :: "bool option"
  last_index :: int

text \<open>One pass through the body of the \<^verbatim>\<open>for\<close> loop, at index \<open>i\<close> with \<open>p = prices[i]\<close>.\<close>

definition zigzag_step :: "real \<Rightarrow> int \<Rightarrow> real \<Rightarrow> zigzag_state \<Rightarrow> zigzag_state" where
  "zigzag_step threshold i p s =
     (let change = np_div (p - last_price s) (last_price s);
          up = (case trend_up s of None \<Rightarrow> f64_gt change 0 | Some b \<Rightarrow> b)
      in if up \<and> f64_le change (- threshold) then
           \<lparr>pivots = pivots s @ [(last_index s, last_price s)],
            last_price = p, trend_up = Some False, last_index = i\<rparr>
         else if \<not> up \<and> f64_ge change threshold then
           \<lparr>pivots = pivots s @ [(last_index s, last_price s)],
            last_price = p, trend_up = Some True, last_index = i\<rparr>
         else s\<lparr>trend_up := Some up\<rparr>)"

text \<open>The loop \<^verbatim>\<open>for i in range(1, len(prices))\<close>, over the prices that remain.\<close>

fun zigzag_loop :: "real \<Rightarrow> int \<Rightarrow> real list \<Rightarrow> zigzag_state \<Rightarrow> zigzag_state" where
  "zigzag_loop threshold i [] s = s"
| "zigzag_loop threshold i (p # ps) s =
     zigzag_loop threshold (i + 1) ps (zigzag_step threshold i p s)"

text \<open>\<^verbatim>\<open>prices[0]\<close> raises IndexError on an empty series.\<close>

definition zigzag_detector :: "real list \<Rightarrow> real \<Rightarrow> error + pivot list" where
  "zigzag_detector prices threshold =
     (case prices of
        [] \<Rightarrow> Inl IndexError
      | p0 # rest \<Rightarrow>
          (let s = zigzag_loop threshold 1 rest
                     \<lparr>pivots = [], last_price = p0, trend_up = None, last_index = 0\<rparr>
           in Inr (pivots s @ [(int (length prices) - 1, last prices)])))"

section \<open>Wave feature extraction\<close>

text \<open>Python's slice \<^verbatim>\<open>xs[i:j]\<close>: a negative bound counts from the end, and both
  bounds are clipped to the sequence.\<close>

definition py_slice :: "'a list \<Rightarrow> int \<Rightarrow> int \<Rightarrow> 'a list" where
  "py_slice xs i j =
     (let n = int (length xs);
          lo = (if i < 0 then max (i + n) 0 else min i n);
          hi = (if j < 0 then max (j + n) 0 else min j n)
      in take (nat (hi - lo)) (drop (nat lo) xs))"

text \<open>\<^verbatim>\<open>np.std\<close>: the population standard deviation, NaN on an empty slice.\<close>

definition np_std :: "real list \<Rightarrow> float64" where
  "np_std xs =
     (if xs = [] then NaN
      else (let n = real (length xs);
                m = sum_list xs / n
            in Fin (sqrt (sum_list (map (\<lambda>x. (x - m)\<^sup>2) xs) / n))))"

text \<open>One row of the wave table, with the keys of the dictionary the source appends.\<close>

record wave =
  Start :: int
  End :: int
  Change :: float64
  Duration :: int
  Slope :: float64
  Volatility :: float64
  Direction :: int

text \<open>The body of the loop of \<^verbatim>\<open>extract_wave_features\<close> for the pivot pair
  \<open>(i1, p1)\<close>, \<open>(i2, p2)\<close>. The division by \<open>duration\<close> is guarded, the division by
  \<open>p1\<close> is not.\<close>

definition wave_of :: "real list \<Rightarrow> pivot \<Rightarrow> pivot \<Rightarrow> wave" where
  "wave_of prices a b =
     (let i1 = fst a; p1 = snd a; i2 = fst b; p2 = snd b;
          duration = i2 - i1;
          change = np_div (p2 - p1) p1;
          slope = (if duration \<noteq> 0 then f64_div_int change duration else Fin 0);
          volatility = (if 0 < duration then np_std (py_slice prices i1 i2) else Fin 0);
          direction = (if f64_gt change 0 then 1 else 0)
      in \<lparr>Start = i1, End = i2, Change = change, Duration = duration, Slope = slope,
          Volatility = volatility, Direction = direction\<rparr>)"

text \<open>\<^verbatim>\<open>for i in range(len(pivots) - 1)\<close> with \<^verbatim>\<open>pivots[i]\<close> and \<^verbatim>\<open>pivots[i + 1]\<close>.\<close>

fun wave_rows :: "real list \<Rightarrow> pivot list \<Rightarrow> wave list" where
  "wave_rows prices (a # b # rest) = wave_of prices a b # wave_rows prices (b # rest)"
| "wave_rows prices [a] = []"
| "wave_rows prices [] = []"

text \<open>The pandas DataFrame of waves: its rows, and the \<^verbatim>\<open>Label\<close> column, which is absent
  (\<open>None\<close>) until \<^verbatim>\<open>label_and_prepare\<close> assigns it.\<close>

record dataframe =
  rows :: "wave list"
  Label :: "string list option"

definition extract_wave_features :: "real list \<Rightarrow> pivot list \<Rightarrow> dataframe" where
  "extract_wave_features prices pivot_seq = \<lparr>rows = wave_rows prices pivot_seq, Label = None\<rparr>"

section \<open>Labels and training set\<close>

text \<open>\<^verbatim>\<open>str(n)\<close> for a natural number.\<close>

fun str_nat :: "nat \<Rightarrow> string" where
  "str_nat n =
     (if n < 10 then [''0123456789'' ! n]
      else str_nat (n div 10) @ [''0123456789'' ! (n mod 10)])"

text \<open>The list assigned to \<^verbatim>\<open>df['Label']\<close>.\<close>

definition wave_labels :: "nat \<Rightarrow> string list" where
  "wave_labels n = map (\<lambda>i. if i < 5 then ''Wave_'' @ str_nat (i + 1) else ''Unknown'') [0..<n]"

text \<open>The five numbers one wave contributes to a feature vector, in the source's order.\<close>

definition wave_features :: "wave \<Rightarrow> float64 list" where
  "wave_features w =
     [Change w, Fin (real_of_int (Duration w)), Slope w, Volatility w,
      Fin (real_of_int (Direction w))]"

text \<open>The body of the loop of \<^verbatim>\<open>label_and_prepare\<close> at \<open>i\<close>: \<open>window\<close> is
  \<^verbatim>\<open>df.iloc[i:i+5]\<close>, rows paired with their labels; it has five rows for
  every \<open>i\<close> the loop visits.\<close>

definition training_example ::
  "(wave \<times> string) list \<Rightarrow> nat \<Rightarrow> float64 list \<times> string \<times> float64" where
  "training_example table i =
     (let window = take 5 (drop i table);
          features = concat (map (\<lambda>j. wave_features (fst (window ! j))) [0..<4])
      in (features, snd (window ! 4), Change (fst (window ! 4))))"

text \<open>\<^verbatim>\<open>label_and_prepare\<close> assigns a column of the DataFrame it is given, so the
  DataFrame after the call is part of the result. \<^verbatim>\<open>range(len(df) - 5)\<close> is empty when
  \<^verbatim>\<open>len(df) <= 5\<close>, as the truncated subtraction of naturals is.\<close>

definition label_and_prepare ::
  "dataframe \<Rightarrow> dataframe \<times> float64 list list \<times> string list \<times> float64 list" where
  "label_and_prepare df =
     (let labels = wave_labels (length (rows df));
          df' = df\<lparr>Label := Some labels\<rparr>;
          examples = map (training_example (zip (rows df') labels)) [0..<length (rows df') - 5]
      in (df', map fst examples, map (fst \<circ> snd) examples, map (snd \<circ> snd) examples))"

section \<open>Triangle patterns\<close>

text \<open>\<^verbatim>\<open>all(highs[k] < highs[k-1] for k in range(1, len(highs)))\<close> and its mirror image
  for the lows.\<close>

definition all_falling :: "real list \<Rightarrow> bool" where
  "all_falling highs = list_all (\<lambda>k. highs ! k < highs ! (k - 1)) [1..<length highs]"

definition all_rising :: "real list \<Rightarrow> bool" where
  "all_rising lows = list_all (\<lambda>k. lows ! k > lows ! (k - 1)) [1..<length lows]"

text \<open>The \<^verbatim>\<open>if\<close>/\<^verbatim>\<open>elif\<close> chain on the two lists; both are non-empty for a window of five
  pivots, so \<^verbatim>\<open>highs[0]\<close>, \<^verbatim>\<open>highs[-1]\<close>, \<^verbatim>\<open>lows[0]\<close> and \<^verbatim>\<open>lows[-1]\<close> are defined.\<close>

definition triangle_kind :: "real list \<Rightarrow> real list \<Rightarrow> string option" where
  "triangle_kind highs lows =
     (if all_falling highs \<and> all_rising lows then Some ''Contracting Triangle''
      else if last highs > hd highs \<and> last lows > hd lows then Some ''Running Triangle''
      else if last highs = hd highs \<or> last lows = hd lows then Some ''Barrier Triangle''
      else None)"

definition window_highs :: "pivot list \<Rightarrow> real list" where
  "window_highs sub = map (snd \<circ> snd) (filter (\<lambda>(j, p). j mod 2 = 0) (enumerate 0 sub))"

definition window_lows :: "pivot list \<Rightarrow> real list" where
  "window_lows sub = map (snd \<circ> snd) (filter (\<lambda>(j, p). j mod 2 \<noteq> 0) (enumerate 0 sub))"

text \<open>What one window \<^verbatim>\<open>sub = pivots[i:i + 5]\<close> appends to \<^verbatim>\<open>patterns\<close>.\<close>

definition window_patterns :: "pivot list \<Rightarrow> (int \<times> string) list" where
  "window_patterns sub =
     (case triangle_kind (window_highs sub) (window_lows sub) of
        None \<Rightarrow> []
      | Some kind \<Rightarrow> [(fst (sub ! 2), kind)])"

definition detect_triangles :: "pivot list \<Rightarrow> (int \<times> string) list" where
  "detect_triangles pivot_seq =
     concat (map (\<lambda>i. window_patterns (take 5 (drop i pivot_seq))) [0..<length pivot_seq - 4])"

section \<open>Forecast and the analysis run\<close>

text \<open>The two random forests are a library's; their \<^verbatim>\<open>fit\<close> and \<^verbatim>\<open>predict\<close> are
  parameters of the model. \<^verbatim>\<open>forecast\<close> takes element 0 of each prediction.\<close>

definition forecast ::
  "('mc \<Rightarrow> float64 list list \<Rightarrow> string list) \<Rightarrow> ('mr \<Rightarrow> float64 list list \<Rightarrow> float64 list) \<Rightarrow>
   float64 list list \<Rightarrow> 'mc \<Rightarrow> 'mr \<Rightarrow> float64 list \<Rightarrow> error + string \<times> float64" where
  "forecast predict_class predict_reg X model_class model_reg latest_features =
     (case predict_class model_class [latest_features] of
        [] \<Rightarrow> Inl IndexError
      | pred_class # _ \<Rightarrow>
          (case predict_reg model_reg [latest_features] of
             [] \<Rightarrow> Inl IndexError
           | pred_change # _ \<Rightarrow> Inr (pred_class, pred_change)))"

text \<open>\<^verbatim>\<open>threshold = st.sidebar.slider("Zigzag Threshold (%)", 1.0, 10.0, 3.5) / 100\<close>: the
  slider returns a value between its bounds 1.0 and 10.0.\<close>

definition slider_threshold :: "real \<Rightarrow> real" where
  "slider_threshold v = v / 100"

text \<open>What a run does to the user interface and to the models, in order.\<close>

datatype event =
  St_error string
| Fit_classifier "float64 list list" "string list"
| Fit_regressor "float64 list list" "float64 list"
| Predicted string float64

text \<open>The block under \<^verbatim>\<open>if st.sidebar.button("Run Analysis")\<close>, from the prices that
  \<^verbatim>\<open>get_data\<close> delivered to the forecast; the chart and the history log that follow the
  forecast are not modelled.\<close>

definition run_analysis ::
  "(float64 list list \<Rightarrow> string list \<Rightarrow> 'mc) \<Rightarrow> (float64 list list \<Rightarrow> float64 list \<Rightarrow> 'mr) \<Rightarrow>
   ('mc \<Rightarrow> float64 list list \<Rightarrow> string list) \<Rightarrow> ('mr \<Rightarrow> float64 list list \<Rightarrow> float64 list) \<Rightarrow>
   real list \<Rightarrow> real \<Rightarrow> error + event list" where
  "run_analysis fit_class fit_reg predict_class predict_reg prices threshold =
     (case zigzag_detector prices threshold of
        Inl e \<Rightarrow> Inl e
      | Inr pivot_seq \<Rightarrow>
          (let waves_df = extract_wave_features prices pivot_seq;
               triangles = detect_triangles pivot_seq;
               (waves_df', X, y_class, y_reg) = label_and_prepare waves_df
           in if length X < 2 then
                Inr [St_error ''Not enough data to train AI. Adjust the period or interval.'']
              else
                (let model_class = fit_class X y_class;
                     model_reg = fit_reg X y_reg;
                     latest_input = last X
                 in case forecast predict_class predict_reg X model_class model_reg latest_input of
                      Inl e \<Rightarrow> Inl e
                    | Inr (label_pred, price_pred) \<Rightarrow>
                        Inr [Fit_classifier X y_class, Fit_regressor X y_reg,
                             Predicted label_pred price_pred])))"

section \<open>Invariants of the pivot loop\<close>

text \<open>Before the loop body runs at index \<open>i\<close>: the indices recorded so far, followed by
  the index of the anchor, increase strictly and stay below \<open>i\<close>; the first recorded
  pivot, when there is one, is the start of the series.\<close>

definition index_inv :: "int \<Rightarrow> zigzag_state \<Rightarrow> bool" where
  "index_inv i s \<longleftrightarrow>
     0 \<le> last_index s \<and> last_index s < i \<and>
     sorted_wrt (<) (map fst (pivots s) @ [last_index s]) \<and>
     (if pivots s = [] then last_index s = 0 else fst (hd (pivots s)) = 0)"

text \<open>A sequence of prices whose successive differences change sign strictly: no
  difference is zero and neighbouring differences have opposite signs.\<close>

fun alternating :: "real list \<Rightarrow> bool" where
  "alternating (a # b # c # rest) = ((b - a) * (c - b) < 0 \<and> alternating (b # c # rest))"
| "alternating [a, b] = True"
| "alternating [a] = True"
| "alternating [] = True"

text \<open>For positive prices: the recorded pivots followed by the anchor alternate, and once
  a pivot is recorded \<open>trend_up\<close> tells whether the anchor lies above it.\<close>

definition trend_inv :: "zigzag_state \<Rightarrow> bool" where
  "trend_inv s \<longleftrightarrow>
     0 < last_price s \<and>
     alternating (map snd (pivots s) @ [last_price s]) \<and>
     (pivots s = [] \<or>
      (snd (last (pivots s)) \<noteq> last_price s \<and>
       trend_up s = Some (snd (last (pivots s)) < last_price s)))"

section \<open>Properties of the pivot detector\<close>

subsection \<open>The scenario of the specification\<close>

text \<open>
  Claim C2, as the code behaves. On the prices \<open>[10, 11, 12, 8, 9, 15]\<close> with threshold
  \<open>0.2\<close> the detector returns the pivots \<open>(0, 10)\<close>, \<open>(3, 8)\<close> and \<open>(5, 15)\<close>. The anchor
  stays at the first price until a reversal is confirmed: the price 8 at index 3 is
  20 per cent below the anchor 10, so the anchor \<open>(0, 10)\<close> is recorded, not the high
  \<open>(2, 12)\<close>.
\<close>

theorem zigzag_scenario:
  "zigzag_detector [10, 11, 12, 8, 9, 15] (2 / 10) = Inr [(0, 10), (3, 8), (5, 15)]"
  by (simp add: zigzag_detector_def zigzag_step_def np_div_def)

text \<open>The pivots that claim C2 lists are not the ones returned.\<close>

theorem zigzag_scenario_counterexample:
  "zigzag_detector [10, 11, 12, 8, 9, 15] (2 / 10) \<noteq> Inr [(2, 12), (3, 8), (5, 15)]"
  by (simp add: zigzag_detector_def zigzag_step_def np_div_def)

subsection \<open>Indices of the pivots\<close>

lemma sorted_wrt_snoc_less:
  "sorted_wrt (<) (xs @ [a]) \<Longrightarrow> a < (b::int) \<Longrightarrow> sorted_wrt (<) (xs @ [a, b])"
  by (auto simp: sorted_wrt_append)

lemma sorted_wrt_snoc_le:
  "sorted_wrt (<) (xs @ [a]) \<Longrightarrow> a \<le> (b::int) \<Longrightarrow> sorted_wrt (<) (xs @ [b])"
  by (fastforce simp: sorted_wrt_append)

lemma zigzag_step_cases:
  "zigzag_step threshold i p s = s\<lparr>trend_up := trend_up (zigzag_step threshold i p s)\<rparr> \<or>
   (pivots (zigzag_step threshold i p s) = pivots s @ [(last_index s, last_price s)] \<and>
    last_price (zigzag_step threshold i p s) = p \<and>
    last_index (zigzag_step threshold i p s) = i)"
  by (simp add: zigzag_step_def Let_def)

lemma index_inv_step:
  assumes "index_inv i s"
  shows "index_inv (i + 1) (zigzag_step threshold i p s)"
  using zigzag_step_cases [of threshold i p s]
proof
  assume "zigzag_step threshold i p s = s\<lparr>trend_up := trend_up (zigzag_step threshold i p s)\<rparr>"
  then have "pivots (zigzag_step threshold i p s) = pivots s"
    and "last_index (zigzag_step threshold i p s) = last_index s"
    by (metis zigzag_state.select_convs zigzag_state.surjective zigzag_state.update_convs)+
  with assms show ?thesis by (simp add: index_inv_def)
next
  assume h: "pivots (zigzag_step threshold i p s) = pivots s @ [(last_index s, last_price s)] \<and>
    last_price (zigzag_step threshold i p s) = p \<and>
    last_index (zigzag_step threshold i p s) = i"
  from assms have "sorted_wrt (<) (map fst (pivots s) @ [last_index s, i])"
    unfolding index_inv_def by (intro sorted_wrt_snoc_less) auto
  with assms h show ?thesis
    by (cases "pivots s") (auto simp: index_inv_def)
qed

lemma index_inv_loop:
  "index_inv i s \<Longrightarrow> index_inv (i + int (length ps)) (zigzag_loop threshold i ps s)"
proof (induction ps arbitrary: i s)
  case Nil
  then show ?case by simp
next
  case (Cons p ps)
  from Cons.IH [OF index_inv_step [OF Cons.prems, of threshold p]]
  show ?case by (simp add: ac_simps)
qed

text \<open>
  Claim C1, as the code behaves. For every non-empty price series and every threshold
  (in particular every threshold in the open interval from 0 to 1) the detector returns a
  non-empty pivot sequence whose indices increase strictly and whose last pivot has index
  \<open>len(prices) - 1\<close>. The first pivot has index 0 exactly when the series has one price or
  at least one reversal was recorded (the sequence has two pivots or more); otherwise the
  only pivot is the terminal one.
\<close>

theorem zigzag_indices:
  assumes "prices \<noteq> []"
  shows "\<exists>pv. zigzag_detector prices threshold = Inr pv \<and> pv \<noteq> [] \<and>
           sorted_wrt (<) (map fst pv) \<and>
           fst (last pv) = int (length prices) - 1 \<and>
           (fst (hd pv) = 0 \<longleftrightarrow> length prices = 1 \<or> 2 \<le> length pv)"
proof -
  from assms obtain p0 rest where pr: "prices = p0 # rest" by (cases prices) auto
  define s0 where "s0 = \<lparr>pivots = [], last_price = p0, trend_up = None, last_index = 0\<rparr>"
  define s where "s = zigzag_loop threshold 1 rest s0"
  define pv where "pv = pivots s @ [(int (length prices) - 1, last prices)]"
  have res: "zigzag_detector prices threshold = Inr pv"
    by (simp add: zigzag_detector_def pr pv_def s_def s0_def)
  have "index_inv 1 s0" by (simp add: index_inv_def s0_def)
  from index_inv_loop [OF this, of rest threshold]
  have inv: "index_inv (int (length prices)) s" by (simp add: s_def pr ac_simps)
  then have "sorted_wrt (<) (map fst (pivots s) @ [last_index s])"
    and "last_index s \<le> int (length prices) - 1"
    by (auto simp: index_inv_def)
  then have srt: "sorted_wrt (<) (map fst pv)"
    unfolding pv_def using sorted_wrt_snoc_le by simp
  have hd0: "fst (hd pv) = 0 \<longleftrightarrow> length prices = 1 \<or> 2 \<le> length pv"
  proof (cases "pivots s")
    case Nil
    then show ?thesis using pr by (auto simp: pv_def)
  next
    case (Cons a as)
    with inv show ?thesis by (auto simp: pv_def index_inv_def)
  qed
  from res srt hd0 show ?thesis by (auto simp: pv_def)
qed

theorem zigzag_indices_witness:
  "[10, 11, 12, 8, 9, 15] \<noteq> ([] :: real list) \<and>
   (\<exists>pv. zigzag_detector [10, 11, 12, 8, 9, 15] (2 / 10) = Inr pv \<and> pv \<noteq> [] \<and>
      sorted_wrt (<) (map fst pv) \<and>
      fst (last pv) = int (length [10, 11, 12, 8, 9, 15 :: real]) - 1 \<and>
      (fst (hd pv) = 0 \<longleftrightarrow> length [10, 11, 12, 8, 9, 15 :: real] = 1 \<or> 2 \<le> length pv))"
  using zigzag_indices [of "[10, 11, 12, 8, 9, 15]" "2 / 10"] by simp

text \<open>A series that rises by a tenth with threshold one half: no reversal is recorded, and
  the first (and only) pivot has index 1, not 0 as claim C1 says.\<close>

theorem zigzag_first_pivot_counterexample:
  "zigzag_detector [10, 11] (1 / 2) = Inr [(1, 11)]"
  by (simp add: zigzag_detector_def zigzag_step_def np_div_def)

subsection \<open>Alternation of the pivots\<close>

lemma alternating_snoc:
  "alternating (xs @ [a, b]) \<Longrightarrow> (b - a) * (c - b) < 0 \<Longrightarrow> alternating (xs @ [a, b, c])"
  by (induction xs rule: alternating.induct) auto

lemma alternating_prefix: "alternating (xs @ ys) \<Longrightarrow> alternating xs"
  by (induction xs rule: alternating.induct) auto


lemma zigzag_step_positive:
  assumes "0 < last_price s"
  shows "zigzag_step threshold i p s =
     (let c = (p - last_price s) / last_price s;
          up = (case trend_up s of None \<Rightarrow> 0 < c | Some b \<Rightarrow> b)
      in if up \<and> c \<le> - threshold then
           \<lparr>pivots = pivots s @ [(last_index s, last_price s)],
            last_price = p, trend_up = Some False, last_index = i\<rparr>
         else if \<not> up \<and> threshold \<le> c then
           \<lparr>pivots = pivots s @ [(last_index s, last_price s)],
            last_price = p, trend_up = Some True, last_index = i\<rparr>
         else s\<lparr>trend_up := Some up\<rparr>)"
  using assms by (cases "trend_up s") (simp_all add: zigzag_step_def np_div_def Let_def)

lemma trend_inv_step:
  assumes inv: "trend_inv s" and thr: "0 < threshold" and pos: "0 < p"
  shows "trend_inv (zigzag_step threshold i p s)"
proof -
  let ?l = "last_price s"
  let ?c = "(p - ?l) / ?l"
  let ?up = "case trend_up s of None \<Rightarrow> 0 < ?c | Some b \<Rightarrow> b"
  from inv have l: "0 < ?l" by (simp add: trend_inv_def)
  note step = zigzag_step_positive [OF l, of threshold i p]
  from inv have alt: "alternating (map snd (pivots s) @ [?l])" by (simp add: trend_inv_def)
  have prev: "snd (last (pivots s)) \<noteq> ?l \<and> ?up = (snd (last (pivots s)) < ?l)"
    if "pivots s \<noteq> []"
    using inv that by (auto simp: trend_inv_def)
  have grow: "alternating (map snd (pivots s) @ [?l, p])"
    if "(?up \<and> p < ?l) \<or> (\<not> ?up \<and> ?l < p)"
  proof (cases "pivots s" rule: rev_cases)
    case Nil
    then show ?thesis by simp
  next
    case (snoc ys y)
    with prev have y: "snd y \<noteq> ?l" "?up = (snd y < ?l)" by auto
    with that have "(?l - snd y) * (p - ?l) < 0"
      by (auto simp: mult_less_0_iff)
    with alt snoc show ?thesis
      using alternating_snoc [of "map snd ys" "snd y" ?l p] by simp
  qed
  consider (down) "?up" "?c \<le> - threshold"
    | (up) "\<not> ?up" "threshold \<le> ?c"
    | (stay) "\<not> (?up \<and> ?c \<le> - threshold)" "\<not> (\<not> ?up \<and> threshold \<le> ?c)"
    by blast
  then show ?thesis
  proof cases
    case down
    from down(2) thr have "?c < 0" by linarith
    with l have lt: "p < ?l" by (simp add: divide_less_0_iff)
    from down have st: "zigzag_step threshold i p s =
        \<lparr>pivots = pivots s @ [(last_index s, ?l)], last_price = p,
         trend_up = Some False, last_index = i\<rparr>"
      by (simp add: step Let_def)
    from grow down(1) lt pos show ?thesis
      by (simp add: st trend_inv_def)
  next
    case up
    from up(2) thr have "0 < ?c" by linarith
    with l have gt: "?l < p" by (simp add: zero_less_divide_iff)
    from up have st: "zigzag_step threshold i p s =
        \<lparr>pivots = pivots s @ [(last_index s, ?l)], last_price = p,
         trend_up = Some True, last_index = i\<rparr>"
      by (simp add: step Let_def)
    from grow up(1) gt pos show ?thesis
      by (simp add: st trend_inv_def)
  next
    case stay
    then have st: "zigzag_step threshold i p s = s\<lparr>trend_up := Some ?up\<rparr>"
      unfolding step Let_def by (cases ?up) auto
    from inv show ?thesis
      by (auto simp: st trend_inv_def)
  qed
qed

lemma trend_inv_loop:
  "trend_inv s \<Longrightarrow> 0 < threshold \<Longrightarrow> \<forall>p\<in>set ps. 0 < p \<Longrightarrow>
   trend_inv (zigzag_loop threshold i ps s)"
proof (induction ps arbitrary: i s)
  case Nil
  then show ?case by simp
next
  case (Cons p ps)
  from Cons.prems have "trend_inv (zigzag_step threshold i p s)"
    by (intro trend_inv_step) auto
  with Cons show ?case by simp
qed

text \<open>
  Claim C4, as the code behaves. For every non-empty series of positive prices and every
  positive threshold (in particular every threshold in the open interval from 0 to 1),
  the price changes between consecutive pivots strictly alternate in sign among all
  pivots but the terminal one. The terminal pivot is appended unconditionally, so the
  last change is not constrained.
\<close>

theorem zigzag_alternates:
  assumes "prices \<noteq> []" and "\<forall>p\<in>set prices. 0 < p" and "0 < threshold"
  shows "\<exists>pv. zigzag_detector prices threshold = Inr pv \<and>
           alternating (map snd (butlast pv))"
proof -
  from assms(1) obtain p0 rest where pr: "prices = p0 # rest" by (cases prices) auto
  define s0 where "s0 = \<lparr>pivots = [], last_price = p0, trend_up = None, last_index = 0\<rparr>"
  define s where "s = zigzag_loop threshold 1 rest s0"
  have res: "zigzag_detector prices threshold =
      Inr (pivots s @ [(int (length prices) - 1, last prices)])"
    by (simp add: zigzag_detector_def pr s_def s0_def)
  from assms(2) have "trend_inv s0" by (simp add: trend_inv_def s0_def pr)
  with assms have "trend_inv s"
    unfolding s_def by (intro trend_inv_loop) (auto simp: pr)
  then have "alternating (map snd (pivots s) @ [last_price s])" by (simp add: trend_inv_def)
  then have "alternating (map snd (pivots s))" by (rule alternating_prefix)
  with res show ?thesis by simp
qed

theorem zigzag_alternates_witness:
  "[100, 101, 40, 62, 30, 50, 49] \<noteq> ([] :: real list) \<and>
   list_all (\<lambda>p. 0 < p) [100, 101, 40, 62, 30, 50, 49 :: real] \<and> (0 :: real) < 1 / 2 \<and>
   (\<exists>pv. zigzag_detector [100, 101, 40, 62, 30, 50, 49] (1 / 2) = Inr pv \<and>
      alternating (map snd (butlast pv)))"
  using zigzag_alternates [of "[100, 101, 40, 62, 30, 50, 49]" "1 / 2"] by simp

text \<open>Two falls in a row, against claim C4: after the reversal at 62 the series ends at 35,
  which is not far enough below 62 to count as a reversal but is below the pivot 40.\<close>

theorem zigzag_alternation_counterexample:
  "zigzag_detector [100, 101, 40, 62, 35] (1 / 2) = Inr [(0, 100), (2, 40), (4, 35)] \<and>
   \<not> alternating [100, 40, 35]"
  by (simp add: zigzag_detector_def zigzag_step_def np_div_def)

text \<open>The hypothesis on the sign of the prices is needed: the change is measured relative
  to the anchor, so with prices of both signs two recorded pivots in a row can rise.\<close>

lemma zigzag_mixed_sign_example:
  "zigzag_detector [-1, -2, 1, 2, 1] (1 / 10) = Inr [(0, -1), (2, 1), (3, 2), (4, 1)] \<and>
   \<not> alternating (map snd (butlast [(0 :: int, -1), (2, 1), (3, 2), (4, 1)]))"
  by (simp add: zigzag_detector_def zigzag_step_def np_div_def)

subsection \<open>No check of the threshold\<close>

text \<open>
  Claim C6, as the code behaves. The detector does not validate its threshold: for every
  threshold, also 0 and every value from 1 upwards, it returns a pivot sequence for a
  non-empty series, and the only condition it raises is the IndexError of an empty
  series. The threshold of the one caller is a slider value between 1 and 10 divided by
  100, which lies strictly between 0 and 1.
\<close>

theorem zigzag_no_threshold_check:
  "(prices \<noteq> [] \<longrightarrow> (\<exists>pv. zigzag_detector prices threshold = Inr pv)) \<and>
   zigzag_detector [] threshold = Inl IndexError \<and>
   (1 \<le> v \<and> v \<le> 10 \<longrightarrow> 0 < slider_threshold v \<and> slider_threshold v < 1)"
  by (cases prices) (simp_all add: zigzag_detector_def slider_threshold_def Let_def)

theorem zigzag_no_threshold_check_witness:
  "[10, 11] \<noteq> ([] :: real list) \<and> (\<exists>pv. zigzag_detector [10, 11] 0 = Inr pv) \<and>
   zigzag_detector [] 0 = Inl IndexError \<and>
   (1 :: real) \<le> 7 / 2 \<and> (7 / 2 :: real) \<le> 10 \<and>
   0 < slider_threshold (7 / 2) \<and> slider_threshold (7 / 2) < 1"
  using zigzag_no_threshold_check [of "[10, 11]" 0 "7 / 2"] by simp

text \<open>With threshold 0 and with threshold 1 a pivot sequence is returned, not an
  InvalidThreshold condition.\<close>

theorem zigzag_threshold_counterexample:
  "zigzag_detector [10, 11] 0 = Inr [(1, 11)] \<and> zigzag_detector [10, 11] 1 = Inr [(1, 11)]"
  by (simp add: zigzag_detector_def zigzag_step_def np_div_def)

section \<open>Properties of the wave extractor\<close>

lemma length_wave_rows: "length (wave_rows prices pv) = length pv - 1"
  by (induction prices pv rule: wave_rows.induct) simp_all

lemma Duration_wave_of: "Duration (wave_of prices a b) = fst b - fst a"
  by (simp add: wave_of_def Let_def)

lemma sum_Duration_wave_rows:
  "pv \<noteq> [] \<Longrightarrow> sum_list (map Duration (wave_rows prices pv)) = fst (last pv) - fst (hd pv)"
  by (induction prices pv rule: wave_rows.induct) (simp_all add: Duration_wave_of)

text \<open>
  Claim C8. For every pivot sequence of length at least 2, \<^verbatim>\<open>extract_wave_features\<close>
  returns exactly \<open>len(pivots) - 1\<close> waves, and their durations sum to the index of the
  last pivot minus the index of the first. For a pivot sequence of length 0 or 1 it
  returns an empty table, not an error.
\<close>

theorem extract_wave_count:
  "(2 \<le> length pivot_seq \<longrightarrow>
      length (rows (extract_wave_features prices pivot_seq)) = length pivot_seq - 1 \<and>
      sum_list (map Duration (rows (extract_wave_features prices pivot_seq))) =
        fst (last pivot_seq) - fst (hd pivot_seq)) \<and>
   (length pivot_seq < 2 \<longrightarrow> rows (extract_wave_features prices pivot_seq) = [])"
proof (intro conjI impI)
  assume "2 \<le> length pivot_seq"
  then have "pivot_seq \<noteq> []" by auto
  then show "sum_list (map Duration (rows (extract_wave_features prices pivot_seq))) =
        fst (last pivot_seq) - fst (hd pivot_seq)"
    by (simp add: extract_wave_features_def sum_Duration_wave_rows)
next
  show "length (rows (extract_wave_features prices pivot_seq)) = length pivot_seq - 1"
    by (simp add: extract_wave_features_def length_wave_rows)
next
  assume "length pivot_seq < 2"
  then have "length (wave_rows prices pivot_seq) = 0"
    by (simp add: length_wave_rows)
  then show "rows (extract_wave_features prices pivot_seq) = []"
    by (simp add: extract_wave_features_def)
qed

theorem extract_wave_count_witness:
  "(2::nat) \<le> length [(0 :: int, 10 :: real), (3, 8), (5, 15)] \<and>
   length (rows (extract_wave_features [10, 11, 12, 8, 9, 15] [(0, 10), (3, 8), (5, 15)])) = 2 \<and>
   sum_list (map Duration (rows (extract_wave_features [10, 11, 12, 8, 9, 15] [(0, 10), (3, 8), (5, 15)]))) = 5 \<and>
   length [(5 :: int, 15 :: real)] < 2 \<and>
   rows (extract_wave_features [10, 11, 12, 8, 9, 15] [(5, 15)]) = []"
  using extract_wave_count [of "[(0, 10), (3, 8), (5, 15)]" "[10, 11, 12, 8, 9, 15]"]
    extract_wave_count [of "[(5, 15)]" "[10, 11, 12, 8, 9, 15]"]
  by simp

lemma np_std_single: "np_std [x] = Fin 0"
  by (simp add: np_std_def)

text \<open>
  Claim C5 asks for a guard against a zero start price; the code has none. The prices
  \<open>[5, 6, 0, 3]\<close> with threshold \<open>0.1\<close> make the detector record the pivot \<open>(2, 0)\<close>, and
  the extractor then divides \<open>3 - 0\<close> by the start price 0: the wave's change and slope
  are infinite. The division by the duration, one line below, is guarded.
\<close>

theorem zero_start_price_unguarded:
  "zigzag_detector [5, 6, 0, 3] (1 / 10) = Inr [(0, 5), (2, 0), (3, 3)] \<and>
   rows (extract_wave_features [5, 6, 0, 3] [(0, 5), (2, 0), (3, 3)]) ! 1 =
     \<lparr>Start = 2, End = 3, Change = PInf, Duration = 1, Slope = PInf,
      Volatility = Fin 0, Direction = 1\<rparr>"
  by (simp add: zigzag_detector_def zigzag_step_def np_div_def extract_wave_features_def
      wave_of_def py_slice_def np_std_single)

text \<open>Whatever the pivots, a zero start price gives a change that is not a finite number.\<close>

lemma zero_start_price_change:
  "snd a = 0 \<Longrightarrow> Change (wave_of prices a b) \<in> {PInf, NInf, NaN}"
  by (simp add: wave_of_def np_div_def Let_def)

section \<open>Properties of the training set builder\<close>

lemma upt_0_4: "[0..<4] = [0, 1, 2, 3]"
  by code_simp

lemma upt_1_3: "[1..<3] = [1, 2]"
  by code_simp

lemma upt_1_2: "[1..<2] = [1]"
  by code_simp

lemma length_wave_labels: "length (wave_labels n) = n"
  by (simp add: wave_labels_def)

lemma take5_drop:
  assumes "i + 5 \<le> length xs"
  shows "take 5 (drop i xs) = [xs ! i, xs ! (i + 1), xs ! (i + 2), xs ! (i + 3), xs ! (i + 4)]"
proof (rule nth_equalityI)
  from assms show "length (take 5 (drop i xs)) =
      length [xs ! i, xs ! (i + 1), xs ! (i + 2), xs ! (i + 3), xs ! (i + 4)]"
    by simp
next
  fix j assume "j < length (take 5 (drop i xs))"
  then have j: "j < 5" by simp
  then consider "j = 0" | "j = 1" | "j = 2" | "j = 3" | "j = 4" by linarith
  then show "take 5 (drop i xs) ! j =
      [xs ! i, xs ! (i + 1), xs ! (i + 2), xs ! (i + 3), xs ! (i + 4)] ! j"
    using assms by cases simp_all
qed

lemma training_example_window:
  assumes "i + 5 \<le> length ws" and "length ls = length ws"
  shows "training_example (zip ws ls) i =
     (wave_features (ws ! i) @ wave_features (ws ! (i + 1)) @
      wave_features (ws ! (i + 2)) @ wave_features (ws ! (i + 3)),
      ls ! (i + 4), Change (ws ! (i + 4)))"
proof -
  from assms have "i + 5 \<le> length (zip ws ls)" by simp
  from take5_drop [OF this] assms show ?thesis
    by (simp add: training_example_def Let_def upt_0_4)
qed

text \<open>What the loop does build: \<open>len(df) - 5\<close> examples, the one at \<open>i\<close> made of the
  twenty numbers of the waves \<open>i\<close> to \<open>i + 3\<close>, the label of wave \<open>i + 4\<close> and the change
  of wave \<open>i + 4\<close>.\<close>

lemma label_and_prepare_shape:
  assumes "label_and_prepare df = (df', X, y_class, y_reg)"
  shows "length X = length (rows df) - 5"
    and "length y_class = length (rows df) - 5"
    and "length y_reg = length (rows df) - 5"
    and "i < length (rows df) - 5 \<Longrightarrow>
           X ! i = wave_features (rows df ! i) @ wave_features (rows df ! (i + 1)) @
                   wave_features (rows df ! (i + 2)) @ wave_features (rows df ! (i + 3)) \<and>
           length (X ! i) = 20 \<and>
           y_class ! i = wave_labels (length (rows df)) ! (i + 4) \<and>
           y_reg ! i = Change (rows df ! (i + 4))"
proof -
  from assms show "length X = length (rows df) - 5" "length y_class = length (rows df) - 5"
    "length y_reg = length (rows df) - 5"
    by (auto simp: label_and_prepare_def Let_def)
next
  assume i: "i < length (rows df) - 5"
  then have "i + 5 \<le> length (rows df)" by simp
  from training_example_window [OF this, of "wave_labels (length (rows df))"]
  have ex: "training_example (zip (rows df) (wave_labels (length (rows df)))) i =
     (wave_features (rows df ! i) @ wave_features (rows df ! (i + 1)) @
      wave_features (rows df ! (i + 2)) @ wave_features (rows df ! (i + 3)),
      wave_labels (length (rows df)) ! (i + 4), Change (rows df ! (i + 4)))"
    by (simp add: length_wave_labels)
  from assms i ex show "X ! i = wave_features (rows df ! i) @ wave_features (rows df ! (i + 1)) @
                   wave_features (rows df ! (i + 2)) @ wave_features (rows df ! (i + 3)) \<and>
           length (X ! i) = 20 \<and>
           y_class ! i = wave_labels (length (rows df)) ! (i + 4) \<and>
           y_reg ! i = Change (rows df ! (i + 4))"
    by (auto simp: label_and_prepare_def Let_def wave_features_def)
qed

text \<open>
  Claim C3 asks for one training example per window of five consecutive waves. The loop
  runs over \<^verbatim>\<open>range(len(df) - 5)\<close>, one window short: a table of exactly five waves holds
  one window of five and yields no example at all. The triangle detector, which also
  slides a window of five, runs over \<^verbatim>\<open>range(len(pivots) - 4)\<close>. The series below gives
  six pivots, hence five waves, and three empty training sequences.
\<close>

theorem five_waves_no_example:
  "zigzag_detector [10, 11, 8, 10, 8, 10, 8] (1 / 10) =
     Inr [(0, 10), (2, 8), (3, 10), (4, 8), (5, 10), (6, 8)] \<and>
   length (rows (extract_wave_features [10, 11, 8, 10, 8, 10, 8]
     [(0, 10), (2, 8), (3, 10), (4, 8), (5, 10), (6, 8)])) = 5 \<and>
   snd (label_and_prepare (extract_wave_features [10, 11, 8, 10, 8, 10, 8]
     [(0, 10), (2, 8), (3, 10), (4, 8), (5, 10), (6, 8)])) = ([], [], [])"
  by (simp add: zigzag_detector_def zigzag_step_def np_div_def extract_wave_features_def
      label_and_prepare_def Let_def)

text \<open>
  Claim C10, as the code behaves. \<^verbatim>\<open>label_and_prepare\<close> assigns the \<^verbatim>\<open>Label\<close> column of the
  table it is given: the rows and their seven wave columns are as before, the table has
  the labels \<open>Wave_1\<close> to \<open>Wave_5\<close> and \<open>Unknown\<close> by position afterwards, and so the
  table that \<^verbatim>\<open>extract_wave_features\<close> produced is never left as it was.
\<close>

theorem label_and_prepare_adds_label:
  "rows (fst (label_and_prepare df)) = rows df \<and>
   Label (fst (label_and_prepare df)) = Some (wave_labels (length (rows df))) \<and>
   fst (label_and_prepare (extract_wave_features prices pv)) \<noteq> extract_wave_features prices pv"
proof (intro conjI)
  show "rows (fst (label_and_prepare df)) = rows df"
    by (simp add: label_and_prepare_def Let_def)
  show "Label (fst (label_and_prepare df)) = Some (wave_labels (length (rows df)))"
    by (simp add: label_and_prepare_def Let_def)
  have "Label (fst (label_and_prepare (extract_wave_features prices pv))) \<noteq>
        Label (extract_wave_features prices pv)"
    by (simp add: label_and_prepare_def Let_def extract_wave_features_def)
  then show "fst (label_and_prepare (extract_wave_features prices pv)) \<noteq>
      extract_wave_features prices pv"
    by auto
qed

text \<open>The table of the single wave between the pivots \<open>(0, 10)\<close> and \<open>(2, 8)\<close> has no label
  column before the call and the column \<open>[Wave_1]\<close> after it, against claim C10.\<close>

theorem label_column_counterexample:
  "Label (extract_wave_features [10, 11, 8] [(0, 10), (2, 8)]) = None \<and>
   Label (fst (label_and_prepare (extract_wave_features [10, 11, 8] [(0, 10), (2, 8)]))) =
     Some [''Wave_1'']"
  by (simp add: label_and_prepare_def Let_def extract_wave_features_def wave_labels_def)

section \<open>Properties of the triangle detector\<close>

lemma window_patterns_five:
  "window_patterns [a, b, c, d, e] =
     (if snd c < snd a \<and> snd e < snd c \<and> snd b < snd d then [(fst c, ''Contracting Triangle'')]
      else if snd a < snd e \<and> snd b < snd d then [(fst c, ''Running Triangle'')]
      else if snd e = snd a \<or> snd d = snd b then [(fst c, ''Barrier Triangle'')]
      else [])"
  by (simp add: window_patterns_def window_highs_def window_lows_def triangle_kind_def
      all_falling_def all_rising_def enumerate_eq_zip upt_1_3 upt_1_2)

lemma detect_triangles_windows:
  "detect_triangles pv =
     concat (map (\<lambda>i. window_patterns [pv ! i, pv ! (i + 1), pv ! (i + 2), pv ! (i + 3), pv ! (i + 4)])
       [0..<length pv - 4])"
  unfolding detect_triangles_def
  by (intro arg_cong [where f = concat] map_cong refl) (simp add: take5_drop)


text \<open>
  Claim C7. \<^verbatim>\<open>detect_triangles\<close> visits the windows of five consecutive pivots in order
  and appends what each window yields. A window \<open>a, b, c, d, e\<close> is tested for a
  contracting triangle (each high strictly below the one before, each low strictly above
  the one before), then for a running triangle (last high above the first, last low above
  the first), then for a barrier triangle (last high equal to the first, or last low equal
  to the first); the first rule that holds gives the pattern, no rule gives nothing, and
  the pattern carries the index of \<open>c\<close>, the pivot at position 2. The highs
  \<open>[100, 90, 80]\<close> with the lows \<open>[50, 60, 70]\<close> are a contracting triangle and the highs
  \<open>[100, 100, 100]\<close> with the lows \<open>[50, 55, 60]\<close> a barrier triangle, both for the rule
  applied to the lists as given and for the window of five pivots that interleaves them
  (a window has three highs and two lows).
\<close>

theorem detect_triangles_rules:
  "detect_triangles pv =
     concat (map (\<lambda>i. window_patterns [pv ! i, pv ! (i + 1), pv ! (i + 2), pv ! (i + 3), pv ! (i + 4)])
       [0..<length pv - 4]) \<and>
   window_patterns [a, b, c, d, e] =
     (if snd c < snd a \<and> snd e < snd c \<and> snd b < snd d then [(fst c, ''Contracting Triangle'')]
      else if snd a < snd e \<and> snd b < snd d then [(fst c, ''Running Triangle'')]
      else if snd e = snd a \<or> snd d = snd b then [(fst c, ''Barrier Triangle'')]
      else []) \<and>
   triangle_kind [100, 90, 80] [50, 60, 70] = Some ''Contracting Triangle'' \<and>
   triangle_kind [100, 100, 100] [50, 55, 60] = Some ''Barrier Triangle'' \<and>
   detect_triangles [(0, 100), (1, 50), (2, 90), (3, 60), (4, 80)] = [(2, ''Contracting Triangle'')] \<and>
   detect_triangles [(0, 100), (1, 50), (2, 100), (3, 55), (4, 100)] = [(2, ''Barrier Triangle'')]"
proof (intro conjI)
  show "detect_triangles pv =
     concat (map (\<lambda>i. window_patterns [pv ! i, pv ! (i + 1), pv ! (i + 2), pv ! (i + 3), pv ! (i + 4)])
       [0..<length pv - 4])"
    by (rule detect_triangles_windows)
  show "window_patterns [a, b, c, d, e] =
     (if snd c < snd a \<and> snd e < snd c \<and> snd b < snd d then [(fst c, ''Contracting Triangle'')]
      else if snd a < snd e \<and> snd b < snd d then [(fst c, ''Running Triangle'')]
      else if snd e = snd a \<or> snd d = snd b then [(fst c, ''Barrier Triangle'')]
      else [])"
    by (rule window_patterns_five)
  show "triangle_kind [100, 90, 80] [50, 60, 70] = Some ''Contracting Triangle''"
    by (simp add: triangle_kind_def all_falling_def all_rising_def upt_1_3)
  show "triangle_kind [100, 100, 100] [50, 55, 60] = Some ''Barrier Triangle''"
    by (simp add: triangle_kind_def all_falling_def all_rising_def upt_1_3)
  show "detect_triangles [(0, 100), (1, 50), (2, 90), (3, 60), (4, 80)] = [(2, ''Contracting Triangle'')]"
    by (simp add: detect_triangles_windows window_patterns_five)
  show "detect_triangles [(0, 100), (1, 50), (2, 100), (3, 55), (4, 100)] = [(2, ''Barrier Triangle'')]"
    by (simp add: detect_triangles_windows window_patterns_five)
qed

text \<open>With the third low as a sixth pivot there is a second window, which starts on a
  low.\<close>

lemma six_pivot_examples:
  "detect_triangles [(0, 100), (1, 50), (2, 90), (3, 60), (4, 80), (5, 70)] =
     [(2, ''Contracting Triangle'')] \<and>
   detect_triangles [(0, 100), (1, 50), (2, 100), (3, 55), (4, 100), (5, 60)] =
     [(2, ''Barrier Triangle''), (3, ''Barrier Triangle'')]"
  by (simp add: detect_triangles_windows window_patterns_five upt_rec)

section \<open>Properties of the analysis run\<close>

text \<open>
  Claim C9. Whenever the training set built from the prices has fewer than two feature
  vectors, in particular whenever there are fewer than five waves, the run shows the
  message that there is not enough data and does nothing else: no model is fitted and no
  prediction is made, whatever the models are.
\<close>

theorem not_enough_data:
  assumes "zigzag_detector prices threshold = Inr pv"
    and "length (fst (snd (label_and_prepare (extract_wave_features prices pv)))) < 2 \<or>
         length (rows (extract_wave_features prices pv)) < 5"
  shows "run_analysis fit_class fit_reg predict_class predict_reg prices threshold =
           Inr [St_error ''Not enough data to train AI. Adjust the period or interval.'']"
proof -
  obtain df' X y_class y_reg
    where lp: "label_and_prepare (extract_wave_features prices pv) = (df', X, y_class, y_reg)"
    by (cases "label_and_prepare (extract_wave_features prices pv)") auto
  have "length (fst (snd (label_and_prepare df))) = length (rows df) - 5" for df
    by (simp add: label_and_prepare_def Let_def)
  with assms(2) have "length (fst (snd (label_and_prepare (extract_wave_features prices pv)))) < 2"
    by auto
  with lp have "length X < 2" by simp
  with assms(1) lp show ?thesis
    by (simp add: run_analysis_def Let_def)
qed

theorem not_enough_data_witness:
  "zigzag_detector [10, 11, 12, 8, 9, 15] (2 / 10) = Inr [(0, 10), (3, 8), (5, 15)] \<and>
   length (rows (extract_wave_features [10, 11, 12, 8, 9, 15] [(0, 10), (3, 8), (5, 15)])) < 5 \<and>
   run_analysis (\<lambda>X y. ()) (\<lambda>X y. ()) (\<lambda>m X. []) (\<lambda>m X. []) [10, 11, 12, 8, 9, 15] (2 / 10) =
     Inr [St_error ''Not enough data to train AI. Adjust the period or interval.'']"
proof -
  have z: "zigzag_detector [10, 11, 12, 8, 9, 15] (2 / 10) = Inr [(0, 10), (3, 8), (5, 15)]"
    by (simp add: zigzag_detector_def zigzag_step_def np_div_def)
  have w: "length (rows (extract_wave_features [10, 11, 12, 8, 9, 15] [(0, 10), (3, 8), (5, 15)])) < 5"
    by (simp add: extract_wave_features_def)
  from not_enough_data [OF z disjI2 [OF w]] z w show ?thesis by simp
qed

text \<open>With two feature vectors or more both models are fitted on the whole training set and
  asked about its last feature vector.\<close>

lemma run_analysis_trains:
  assumes "zigzag_detector prices threshold = Inr pv"
    and "label_and_prepare (extract_wave_features prices pv) = (df', X, y_class, y_reg)"
    and "2 \<le> length X"
    and "predict_class (fit_class X y_class) [last X] = label_pred # ls"
    and "predict_reg (fit_reg X y_reg) [last X] = price_pred # cs"
  shows "run_analysis fit_class fit_reg predict_class predict_reg prices threshold =
           Inr [Fit_classifier X y_class, Fit_regressor X y_reg, Predicted label_pred price_pred]"
  using assms by (simp add: run_analysis_def forecast_def Let_def)

text \<open>An empty price series never reaches the guard: \<^verbatim>\<open>prices[0]\<close> raises first.\<close>

lemma run_analysis_empty:
  "run_analysis fit_class fit_reg predict_class predict_reg [] threshold = Inl IndexError"
  by (simp add: run_analysis_def zigzag_detector_def)

end
